theory Spec2Isabelle
  imports Complex_Main "HOL-Library.Char_ord" "HOL-Library.List_Lexorder" "HOL-Library.Sublist"
    "HOL-Library.Multiset"
begin

text \<open>
  A model of the persistence and import/export layer of the M-Hike application:
  \<open>lib/database.ts\<close> (the SQLite schema and the queries on the tables \<open>hikes\<close> and
  \<open>observations\<close>) and \<open>lib/storage.ts\<close> (the export text, its decoder and the
  import), with the parts of SQLite and of JavaScript's \<open>JSON\<close> object those functions
  rely on. A function that awaits the database takes the database and returns it with its
  result; a rejected promise is the left summand of the result.
\<close>

section \<open>JavaScript values used by the persistence layer\<close>

text \<open>
  A JavaScript \<open>number\<close> is modelled by a decimal \<open>mantissa * 10 ^ exponent\<close>, the
  decimal the number prints as: the code only stores, compares, prints and parses numbers,
  it never computes with them, so no rounding takes place. Two decimals are the same
  number when \<open>num_val\<close> gives them the same value. A \<open>string\<close> is a list of
  characters; the order on strings is the byte-wise lexicographic one, which is SQLite's
  default \<open>BINARY\<close> collation. A thrown value is either an \<open>Error\<close> object (with its
  subclass and message) or some other value.
\<close>

datatype jsnum = Dec (mantissa: int) (exponent: int)

definition num_val :: "jsnum \<Rightarrow> rat" where
  "num_val x =
     (if 0 \<le> exponent x then of_int (mantissa x) * 10 ^ nat (exponent x)
      else of_int (mantissa x) / 10 ^ nat (- exponent x))"

datatype exn =
    Error string
  | SyntaxError string
  | TypeError string
  | NonError

text \<open>\<open>error instanceof Error ? error.message : fallback\<close>\<close>

fun message_or :: "string \<Rightarrow> exn \<Rightarrow> string" where
  "message_or fallback (Error m) = m"
| "message_or fallback (SyntaxError m) = m"
| "message_or fallback (TypeError m) = m"
| "message_or fallback NonError = fallback"

text \<open>The operand of \<open>x || null\<close>: an absent value, the empty string and zero are falsy.\<close>

definition str_or_null :: "string option \<Rightarrow> string option" where
  "str_or_null v = (case v of None \<Rightarrow> None | Some s \<Rightarrow> if s = [] then None else Some s)"

definition num_or_null :: "jsnum option \<Rightarrow> jsnum option" where
  "num_or_null v = (case v of None \<Rightarrow> None | Some x \<Rightarrow> if mantissa x = 0 then None else Some x)"

section \<open>types/index.ts\<close>

record Hike =
  hike_id :: "nat option"
  name :: string
  location :: string
  date :: string
  parkingAvailable :: bool
  lengthKm :: jsnum
  difficulty :: string
  description :: "string option"
  elevationGainM :: "jsnum option"
  rating :: "jsnum option"
  photoUri :: "string option"
  latitude :: "jsnum option"
  longitude :: "jsnum option"
  addedToCalendar :: "bool option"

record Observation =
  obs_id :: "nat option"
  hikeId :: nat
  observation :: string
  timestamp :: jsnum
  comments :: "string option"
  obs_photoUri :: "string option"

section \<open>The SQLite store\<close>

text \<open>
  One row of each table created by \<open>ensureSchema\<close>. Nullable columns are options;
  the two flag columns hold the integers the code binds (\<open>? 1 : 0\<close>).
\<close>

record hikes_row =
  r_id :: nat
  r_name :: string
  r_location :: string
  r_date :: string
  r_parkingAvailable :: int
  r_lengthKm :: jsnum
  r_difficulty :: string
  r_description :: "string option"
  r_elevationGainM :: "jsnum option"
  r_rating :: "jsnum option"
  r_photoUri :: "string option"
  r_latitude :: "jsnum option"
  r_longitude :: "jsnum option"
  r_addedToCalendar :: int

record observations_row =
  o_id :: nat
  o_hikeId :: nat
  o_observation :: string
  o_timestamp :: jsnum
  o_comments :: "string option"
  o_photoUri :: "string option"

text \<open>
  The database behind the shared connection. The tables are kept in rowid order.
  \<open>hikes_seq\<close> and \<open>observations_seq\<close> are the \<open>AUTOINCREMENT\<close> counters
  (the largest rowid ever handed out). \<open>foreign_keys\<close> is the connection's
  \<open>PRAGMA foreign_keys\<close> setting: SQLite runs the actions of a
  \<open>FOREIGN KEY ... ON DELETE CASCADE\<close> clause, and checks the key on insertion, only on a
  connection where it is on. \<open>faults\<close> schedules what the driver does at the next
  statements: \<open>Some e\<close> makes the statement reject with \<open>e\<close>, \<open>None\<close> (or an
  exhausted schedule) lets it run.
\<close>

record db =
  hikes :: "hikes_row list"
  observations :: "observations_row list"
  hikes_seq :: nat
  observations_seq :: nat
  foreign_keys :: bool
  faults :: "exn option list"

text \<open>
  \<open>SQLite.openDatabaseAsync(DB_NAME)\<close> on a device without the file, followed by
  \<open>ensureSchema\<close>: two empty tables. A new SQLite connection has foreign-key
  enforcement off, and no statement of \<open>ensureSchema\<close> (or of any other function of
  the module) issues \<open>PRAGMA foreign_keys = ON\<close>.
\<close>

definition openDatabase_fresh :: db where
  "openDatabase_fresh =
     \<lparr>hikes = [], observations = [], hikes_seq = 0, observations_seq = 0,
      foreign_keys = False, faults = []\<rparr>"

text \<open>One statement handed to the driver: it takes the next scheduled fault.\<close>

definition driver_call :: "db \<Rightarrow> exn option \<times> db" where
  "driver_call d =
     (case faults d of
        [] \<Rightarrow> (None, d)
      | f # fs \<Rightarrow> (f, d\<lparr>faults := fs\<rparr>))"

subsection \<open>SQL fragments\<close>

text \<open>
  \<open>ORDER BY\<close>: rows that compare equal keep their rowid order. \<open>place\<close> puts a row
  in front of the first row it may precede.
\<close>

fun place :: "('a \<Rightarrow> 'a \<Rightarrow> bool) \<Rightarrow> 'a \<Rightarrow> 'a list \<Rightarrow> 'a list" where
  "place le x [] = [x]"
| "place le x (y # ys) = (if le x y then x # y # ys else y # place le x ys)"

definition order_by :: "('a \<Rightarrow> 'a \<Rightarrow> bool) \<Rightarrow> 'a list \<Rightarrow> 'a list" where
  "order_by le xs = foldr (place le) xs []"

text \<open>\<open>ORDER BY date DESC, name ASC\<close>\<close>

definition date_desc_name_asc :: "hikes_row \<Rightarrow> hikes_row \<Rightarrow> bool" where
  "date_desc_name_asc a b \<longleftrightarrow>
     r_date b < r_date a \<or> (r_date a = r_date b \<and> r_name a \<le> r_name b)"

text \<open>\<open>ORDER BY name ASC\<close>\<close>

definition name_asc :: "hikes_row \<Rightarrow> hikes_row \<Rightarrow> bool" where
  "name_asc a b \<longleftrightarrow> r_name a \<le> r_name b"

text \<open>\<open>ORDER BY timestamp DESC\<close>\<close>

definition timestamp_desc :: "observations_row \<Rightarrow> observations_row \<Rightarrow> bool" where
  "timestamp_desc a b \<longleftrightarrow> num_val (o_timestamp b) \<le> num_val (o_timestamp a)"

text \<open>
  SQLite's \<open>LIKE\<close> without an \<open>ESCAPE\<close> clause: in the pattern \<open>%\<close> stands for
  any run of characters and \<open>_\<close> for any one character; every other character matches
  itself, the ASCII letters without regard to case.
\<close>

definition ascii_lower :: "char \<Rightarrow> char" where
  "ascii_lower c =
     (case map_of (zip ''ABCDEFGHIJKLMNOPQRSTUVWXYZ'' ''abcdefghijklmnopqrstuvwxyz'') c of
        None \<Rightarrow> c
      | Some l \<Rightarrow> l)"

fun sql_like :: "string \<Rightarrow> string \<Rightarrow> bool" where
  "sql_like [] t = (t = [])"
| "sql_like (p # ps) [] = (p = CHR ''%'' \<and> sql_like ps [])"
| "sql_like (p # ps) (c # cs) =
     (if p = CHR ''%'' then sql_like ps (c # cs) \<or> sql_like (p # ps) cs
      else (p = CHR ''_'' \<or> ascii_lower p = ascii_lower c) \<and> sql_like ps cs)"

section \<open>lib/database.ts\<close>

text \<open>
  Every function starts with \<open>await openDatabase()\<close>, which hands out the one
  connection of the process and runs \<open>ensureSchema\<close> on first use. The statements of
  \<open>ensureSchema\<close> create what does not exist yet and change nothing else, so on a
  database that has its two tables the call has no effect and the model leaves it out.
  The single statement of a function goes through \<open>driver_call\<close>; what the
  \<open>catch\<close> block of a function rethrows is what the driver rejected with.
\<close>

text \<open>The object literal every query function builds from a row of \<open>hikes\<close>.\<close>

definition row_to_hike :: "hikes_row \<Rightarrow> Hike" where
  "row_to_hike row =
     \<lparr>hike_id = Some (r_id row),
      name = r_name row,
      location = r_location row,
      date = r_date row,
      parkingAvailable = (r_parkingAvailable row = 1),
      lengthKm = r_lengthKm row,
      difficulty = r_difficulty row,
      description = r_description row,
      elevationGainM = r_elevationGainM row,
      rating = r_rating row,
      photoUri = r_photoUri row,
      latitude = r_latitude row,
      longitude = r_longitude row,
      addedToCalendar = Some (r_addedToCalendar row = 1)\<rparr>"

definition row_to_observation :: "observations_row \<Rightarrow> Observation" where
  "row_to_observation row =
     \<lparr>obs_id = Some (o_id row),
      hikeId = o_hikeId row,
      observation = o_observation row,
      timestamp = o_timestamp row,
      comments = o_comments row,
      obs_photoUri = o_photoUri row\<rparr>"

text \<open>The thirteen values \<open>insertHike\<close> and \<open>updateHike\<close> bind, as a row with the given id.\<close>

definition hike_params :: "nat \<Rightarrow> Hike \<Rightarrow> hikes_row" where
  "hike_params i hike =
     \<lparr>r_id = i,
      r_name = name hike,
      r_location = location hike,
      r_date = date hike,
      r_parkingAvailable = (if parkingAvailable hike then 1 else 0),
      r_lengthKm = lengthKm hike,
      r_difficulty = difficulty hike,
      r_description = str_or_null (description hike),
      r_elevationGainM = num_or_null (elevationGainM hike),
      r_rating = num_or_null (rating hike),
      r_photoUri = str_or_null (photoUri hike),
      r_latitude = num_or_null (latitude hike),
      r_longitude = num_or_null (longitude hike),
      r_addedToCalendar = (if addedToCalendar hike = Some True then 1 else 0)\<rparr>"

definition insertHike :: "db \<Rightarrow> Hike \<Rightarrow> (exn + nat) \<times> db" where
  "insertHike d hike =
     (case driver_call d of
        (Some e, d') \<Rightarrow> (Inl e, d')
      | (None, d') \<Rightarrow>
          (let i = hikes_seq d' + 1
           in (Inr i, d'\<lparr>hikes := hikes d' @ [hike_params i hike], hikes_seq := i\<rparr>)))"

definition getAllHikes :: "db \<Rightarrow> (exn + Hike list) \<times> db" where
  "getAllHikes d =
     (case driver_call d of
        (Some e, d') \<Rightarrow> (Inl e, d')
      | (None, d') \<Rightarrow> (Inr (map row_to_hike (order_by date_desc_name_asc (hikes d'))), d'))"

definition getHikeById :: "db \<Rightarrow> nat \<Rightarrow> (exn + Hike option) \<times> db" where
  "getHikeById d i =
     (case driver_call d of
        (Some e, d') \<Rightarrow> (Inl e, d')
      | (None, d') \<Rightarrow>
          (case find (\<lambda>row. r_id row = i) (hikes d') of
             None \<Rightarrow> (Inr None, d')
           | Some result \<Rightarrow> (Inr (Some (row_to_hike result)), d')))"

definition updateHike :: "db \<Rightarrow> Hike \<Rightarrow> (exn + unit) \<times> db" where
  "updateHike d hike =
     (case hike_id hike of
        None \<Rightarrow> (Inl (Error ''Hike ID is required for update''), d)
      | Some i \<Rightarrow>
          if i = 0 then (Inl (Error ''Hike ID is required for update''), d)
          else
            (case driver_call d of
               (Some e, d') \<Rightarrow> (Inl e, d')
             | (None, d') \<Rightarrow>
                 (Inr (),
                  d'\<lparr>hikes := map (\<lambda>row. if r_id row = i then hike_params i hike else row)
                                (hikes d')\<rparr>)))"

text \<open>
  \<open>DELETE FROM hikes WHERE id = ?\<close>. The rows of \<open>observations\<close> that reference the
  deleted hike go with it (\<open>ON DELETE CASCADE\<close>) when the connection enforces
  foreign keys.
\<close>

definition sql_delete_hike :: "nat \<Rightarrow> db \<Rightarrow> db" where
  "sql_delete_hike i d =
     d\<lparr>hikes := filter (\<lambda>row. r_id row \<noteq> i) (hikes d),
       observations :=
         (if foreign_keys d \<and> i \<in> set (map r_id (hikes d))
          then filter (\<lambda>row. o_hikeId row \<noteq> i) (observations d)
          else observations d)\<rparr>"

definition deleteHike :: "db \<Rightarrow> nat \<Rightarrow> (exn + unit) \<times> db" where
  "deleteHike d i =
     (case driver_call d of
        (Some e, d') \<Rightarrow> (Inl e, d')
      | (None, d') \<Rightarrow> (Inr (), sql_delete_hike i d'))"

text \<open>\<open>DELETE FROM hikes\<close>, then \<open>DELETE FROM observations\<close>.\<close>

definition sql_delete_all_hikes :: "db \<Rightarrow> db" where
  "sql_delete_all_hikes d =
     d\<lparr>hikes := [],
       observations :=
         (if foreign_keys d
          then filter (\<lambda>row. o_hikeId row \<notin> set (map r_id (hikes d))) (observations d)
          else observations d)\<rparr>"

definition deleteAllHikes :: "db \<Rightarrow> (exn + unit) \<times> db" where
  "deleteAllHikes d =
     (case driver_call d of
        (Some e, d') \<Rightarrow> (Inl e, d')
      | (None, d') \<Rightarrow>
          (case driver_call (sql_delete_all_hikes d') of
             (Some e, d'') \<Rightarrow> (Inl e, d'')
           | (None, d'') \<Rightarrow> (Inr (), d''\<lparr>observations := []\<rparr>)))"

definition searchHikes :: "db \<Rightarrow> string \<Rightarrow> (exn + Hike list) \<times> db" where
  "searchHikes d query =
     (case driver_call d of
        (Some e, d') \<Rightarrow> (Inl e, d')
      | (None, d') \<Rightarrow>
          (Inr (map row_to_hike
                 (order_by name_asc
                   (filter (\<lambda>row. sql_like (''%'' @ query @ ''%'') (r_name row)) (hikes d')))),
           d'))"

text \<open>
  The seven optional arguments of \<open>advancedSearchHikes\<close>. \<open>if (name)\<close> skips an
  undefined and an empty string; \<open>if (minLen !== undefined)\<close> skips only undefined.
\<close>

record SearchFilters =
  f_name :: "string option"
  f_location :: "string option"
  f_minLen :: "jsnum option"
  f_maxLen :: "jsnum option"
  f_date :: "string option"
  f_difficulty :: "string option"
  f_parking :: "bool option"

text \<open>The \<open>WHERE\<close> clause the function assembles, one conjunct for each argument it keeps.\<close>

definition like_clause :: "string option \<Rightarrow> string \<Rightarrow> bool" where
  "like_clause v column =
     (case v of
        None \<Rightarrow> True
      | Some s \<Rightarrow> if s = [] then True else sql_like (''%'' @ s @ ''%'') column)"

definition equals_clause :: "string option \<Rightarrow> string \<Rightarrow> bool" where
  "equals_clause v column =
     (case v of
        None \<Rightarrow> True
      | Some s \<Rightarrow> if s = [] then True else column = s)"

definition advanced_where :: "SearchFilters \<Rightarrow> hikes_row \<Rightarrow> bool" where
  "advanced_where c row \<longleftrightarrow>
     like_clause (f_name c) (r_name row) \<and>
     like_clause (f_location c) (r_location row) \<and>
     (case f_minLen c of None \<Rightarrow> True | Some m \<Rightarrow> num_val m \<le> num_val (r_lengthKm row)) \<and>
     (case f_maxLen c of None \<Rightarrow> True | Some m \<Rightarrow> num_val (r_lengthKm row) \<le> num_val m) \<and>
     equals_clause (f_date c) (r_date row) \<and>
     equals_clause (f_difficulty c) (r_difficulty row) \<and>
     (case f_parking c of None \<Rightarrow> True
      | Some p \<Rightarrow> r_parkingAvailable row = (if p then 1 else 0))"

definition advancedSearchHikes :: "db \<Rightarrow> SearchFilters \<Rightarrow> (exn + Hike list) \<times> db" where
  "advancedSearchHikes d c =
     (case driver_call d of
        (Some e, d') \<Rightarrow> (Inl e, d')
      | (None, d') \<Rightarrow>
          (Inr (map row_to_hike
                 (order_by date_desc_name_asc (filter (advanced_where c) (hikes d')))),
           d'))"

text \<open>
  \<open>findDuplicateHike\<close>: the first row equal to the candidate on the six columns of the
  \<open>WHERE\<close> clause.
\<close>

definition duplicate_where :: "Hike \<Rightarrow> hikes_row \<Rightarrow> bool" where
  "duplicate_where hike row \<longleftrightarrow>
     r_name row = name hike \<and> r_location row = location hike \<and> r_date row = date hike \<and>
     num_val (r_lengthKm row) = num_val (lengthKm hike) \<and> r_difficulty row = difficulty hike \<and>
     r_parkingAvailable row = (if parkingAvailable hike then 1 else 0)"

definition findDuplicateHike :: "db \<Rightarrow> Hike \<Rightarrow> (exn + Hike option) \<times> db" where
  "findDuplicateHike d hike =
     (case driver_call d of
        (Some e, d') \<Rightarrow> (Inl e, d')
      | (None, d') \<Rightarrow>
          (case find (duplicate_where hike) (hikes d') of
             None \<Rightarrow> (Inr None, d')
           | Some result \<Rightarrow> (Inr (Some (row_to_hike result)), d')))"

text \<open>
  \<open>insertObservation\<close>. With foreign keys enforced, a \<open>hikeId\<close> that names no hike
  is rejected by the store.
\<close>

definition insertObservation :: "db \<Rightarrow> Observation \<Rightarrow> (exn + nat) \<times> db" where
  "insertObservation d obs =
     (case driver_call d of
        (Some e, d') \<Rightarrow> (Inl e, d')
      | (None, d') \<Rightarrow>
          if foreign_keys d' \<and> hikeId obs \<notin> set (map r_id (hikes d'))
          then (Inl (Error ''FOREIGN KEY constraint failed''), d')
          else
            (let i = observations_seq d' + 1
             in (Inr i,
                 d'\<lparr>observations := observations d' @
                       [\<lparr>o_id = i,
                         o_hikeId = hikeId obs,
                         o_observation = observation obs,
                         o_timestamp = timestamp obs,
                         o_comments = str_or_null (comments obs),
                         o_photoUri = str_or_null (obs_photoUri obs)\<rparr>],
                    observations_seq := i\<rparr>)))"

definition getObservationsByHikeId :: "db \<Rightarrow> nat \<Rightarrow> (exn + Observation list) \<times> db" where
  "getObservationsByHikeId d i =
     (case driver_call d of
        (Some e, d') \<Rightarrow> (Inl e, d')
      | (None, d') \<Rightarrow>
          (Inr (map row_to_observation
                 (order_by timestamp_desc (filter (\<lambda>row. o_hikeId row = i) (observations d')))),
           d'))"

definition getObservationById :: "db \<Rightarrow> nat \<Rightarrow> (exn + Observation option) \<times> db" where
  "getObservationById d i =
     (case driver_call d of
        (Some e, d') \<Rightarrow> (Inl e, d')
      | (None, d') \<Rightarrow>
          (case find (\<lambda>row. o_id row = i) (observations d') of
             None \<Rightarrow> (Inr None, d')
           | Some result \<Rightarrow> (Inr (Some (row_to_observation result)), d')))"

definition updateObservation :: "db \<Rightarrow> Observation \<Rightarrow> (exn + unit) \<times> db" where
  "updateObservation d obs =
     (case obs_id obs of
        None \<Rightarrow> (Inl (Error ''Observation ID is required for update''), d)
      | Some i \<Rightarrow>
          if i = 0 then (Inl (Error ''Observation ID is required for update''), d)
          else
            (case driver_call d of
               (Some e, d') \<Rightarrow> (Inl e, d')
             | (None, d') \<Rightarrow>
                 (Inr (),
                  d'\<lparr>observations :=
                       map (\<lambda>row. if o_id row = i
                                  then row\<lparr>o_observation := observation obs,
                                           o_timestamp := timestamp obs,
                                           o_comments := str_or_null (comments obs),
                                           o_photoUri := str_or_null (obs_photoUri obs)\<rparr>
                                  else row)
                           (observations d')\<rparr>)))"

definition deleteObservation :: "db \<Rightarrow> nat \<Rightarrow> (exn + unit) \<times> db" where
  "deleteObservation d i =
     (case driver_call d of
        (Some e, d') \<Rightarrow> (Inl e, d')
      | (None, d') \<Rightarrow> (Inr (), d'\<lparr>observations := filter (\<lambda>row. o_id row \<noteq> i) (observations d')\<rparr>))"

section \<open>JSON\<close>

text \<open>
  The values \<open>JSON.parse\<close> produces and \<open>JSON.stringify\<close> prints. An object keeps
  its properties in the order they were written. Characters are single bytes, so a text is
  modelled up to the code point 255.
\<close>

datatype json =
    JNull
  | JBool bool
  | JNum jsnum
  | JStr string
  | JArr "json list"
  | JObj "(string \<times> json) list"

subsection \<open>Number::toString\<close>

text \<open>
  The decimal digits of a natural number, and the printing of a number as ECMAScript defines
  it: with \<open>s\<close> the digits of the number without trailing zeros, \<open>k\<close> their count and
  \<open>n\<close> the position of the decimal point, the number is written in positional notation
  when \<open>- 6 < n \<le> 21\<close> and in exponent notation otherwise. \<open>digit_char\<close> and
  \<open>hex_char\<close> are only applied to a digit below the base.
\<close>

definition digit_char :: "nat \<Rightarrow> char" where
  "digit_char n = ''0123456789'' ! n"

function show_nat :: "nat \<Rightarrow> string" where
  "show_nat n = (if n < 10 then [digit_char n] else show_nat (n div 10) @ [digit_char (n mod 10)])"
  by pat_completeness auto
termination
  by (relation "measure (\<lambda>n. n)") auto

function shortest :: "nat \<Rightarrow> int \<Rightarrow> nat \<times> int" where
  "shortest m e = (if m = 0 \<or> m mod 10 \<noteq> 0 then (m, e) else shortest (m div 10) (e + 1))"
  by pat_completeness auto
termination
  by (relation "measure (\<lambda>(m, e). m)") auto

definition Number_toString :: "jsnum \<Rightarrow> string" where
  "Number_toString x =
     (if mantissa x = 0 then ''0''
      else
        (let (m, e) = shortest (nat \<bar>mantissa x\<bar>) (exponent x);
             s = show_nat m;
             k = int (length s);
             n = k + e;
             body =
               (if k \<le> n \<and> n \<le> 21 then s @ replicate (nat (n - k)) CHR ''0''
                else if 0 < n \<and> n \<le> 21 then take (nat n) s @ ''.'' @ drop (nat n) s
                else if -6 < n \<and> n \<le> 0 then ''0.'' @ replicate (nat (- n)) CHR ''0'' @ s
                else
                  (let ex = (if 0 \<le> n - 1 then ''+'' else ''-'') @ show_nat (nat \<bar>n - 1\<bar>)
                   in if k = 1 then s @ ''e'' @ ex
                      else take 1 s @ ''.'' @ drop 1 s @ ''e'' @ ex))
         in (if mantissa x < 0 then ''-'' else '''') @ body))"


subsection \<open>JSON.stringify(value, null, 2)\<close>

text \<open>
  A string is printed between double quotes with the quote, the backslash and the control
  characters escaped. An array or object that is not empty is printed one member a line,
  each nesting level indented by two more spaces.
\<close>

definition hex_char :: "nat \<Rightarrow> char" where
  "hex_char n = ''0123456789abcdef'' ! n"

definition quote_char :: "char \<Rightarrow> string" where
  "quote_char c =
     (if c = CHR 0x22 then [CHR 0x5C, CHR 0x22]
      else if c = CHR 0x5C then [CHR 0x5C, CHR 0x5C]
      else if c = CHR 0x08 then [CHR 0x5C, CHR ''b'']
      else if c = CHR 0x0C then [CHR 0x5C, CHR ''f'']
      else if c = CHR 0x0A then [CHR 0x5C, CHR ''n'']
      else if c = CHR 0x0D then [CHR 0x5C, CHR ''r'']
      else if c = CHR 0x09 then [CHR 0x5C, CHR ''t'']
      else if c < CHR 0x20
        then [CHR 0x5C, CHR ''u'', CHR ''0'', CHR ''0'',
              hex_char (of_char c div 16), hex_char (of_char c mod 16)]
      else [c])"

definition quote :: "string \<Rightarrow> string" where
  "quote s = [CHR 0x22] @ concat (map quote_char s) @ [CHR 0x22]"

fun join :: "string \<Rightarrow> string list \<Rightarrow> string" where
  "join sep [] = []"
| "join sep [x] = x"
| "join sep (x # y # ys) = x @ sep @ join sep (y # ys)"

fun stringify :: "nat \<Rightarrow> json \<Rightarrow> string" where
  "stringify ind JNull = ''null''"
| "stringify ind (JBool b) = (if b then ''true'' else ''false'')"
| "stringify ind (JNum x) = Number_toString x"
| "stringify ind (JStr s) = quote s"
| "stringify ind (JArr items) =
     (if items = [] then ''[]''
      else ''['' @ [CHR 0x0A] @ replicate (ind + 2) CHR '' '' @
           join ('','' @ [CHR 0x0A] @ replicate (ind + 2) CHR '' '')
             (map (stringify (ind + 2)) items) @
           [CHR 0x0A] @ replicate ind CHR '' '' @ '']'')"
| "stringify ind (JObj props) =
     (if props = [] then ''{}''
      else ''{'' @ [CHR 0x0A] @ replicate (ind + 2) CHR '' '' @
           join ('','' @ [CHR 0x0A] @ replicate (ind + 2) CHR '' '')
             (map (\<lambda>(k, v). quote k @ '': '' @ stringify (ind + 2) v) props) @
           [CHR 0x0A] @ replicate ind CHR '' '' @ ''}'')"

definition JSON_stringify :: "json \<Rightarrow> string" where
  "JSON_stringify v = stringify 0 v"


subsection \<open>JSON.parse\<close>

text \<open>
  The parser works in two passes over the JSON grammar: the scanner turns the text into
  tokens, and \<open>parse_tokens\<close> builds the value with a stack of the arrays and objects that
  are still open. \<open>None\<close> is the \<open>SyntaxError\<close> of \<open>JSON.parse\<close>. An escape
  of four hexadecimal digits with a code point above 255 has no character in this model and
  is rejected.
\<close>

datatype token =
    TLBrace | TRBrace | TLBracket | TRBracket | TColon | TComma
  | TString string | TNumber jsnum | TTrue | TFalse | TNull

datatype lexstate =
    Idle
  | InString string
  | InEscape string
  | InUnicode string "nat list"
  | InNumber string
  | InWord string

definition is_ws :: "char \<Rightarrow> bool" where
  "is_ws c \<longleftrightarrow> c = CHR '' '' \<or> c = CHR 0x09 \<or> c = CHR 0x0A \<or> c = CHR 0x0D"

definition is_digit :: "char \<Rightarrow> bool" where
  "is_digit c \<longleftrightarrow> CHR ''0'' \<le> c \<and> c \<le> CHR ''9''"

definition is_letter :: "char \<Rightarrow> bool" where
  "is_letter c \<longleftrightarrow> CHR ''a'' \<le> c \<and> c \<le> CHR ''z''"

definition is_number_char :: "char \<Rightarrow> bool" where
  "is_number_char c \<longleftrightarrow>
     is_digit c \<or> c = CHR ''.'' \<or> c = CHR ''e'' \<or> c = CHR ''E'' \<or> c = CHR ''+'' \<or> c = CHR ''-''"

fun index_of :: "char \<Rightarrow> string \<Rightarrow> nat option" where
  "index_of c [] = None"
| "index_of c (x # xs) = (if c = x then Some 0 else map_option Suc (index_of c xs))"

definition digits_val :: "string \<Rightarrow> nat" where
  "digits_val ds = foldl (\<lambda>a c. 10 * a + (case index_of c ''0123456789'' of None \<Rightarrow> 0 | Some v \<Rightarrow> v)) 0 ds"

definition hex_val :: "char \<Rightarrow> nat option" where
  "hex_val c =
     (case index_of c ''0123456789abcdef'' of
        Some v \<Rightarrow> Some v
      | None \<Rightarrow> map_option (\<lambda>v. v + 10) (index_of c ''ABCDEF''))"

text \<open>The optional exponent part of a number literal: its value and nothing left over.\<close>

definition exponent_of :: "string \<Rightarrow> int option" where
  "exponent_of s =
     (case s of
        [] \<Rightarrow> Some 0
      | c # r \<Rightarrow>
          if c = CHR ''e'' \<or> c = CHR ''E'' then
            (let (neg, ds) =
                   (case r of
                      [] \<Rightarrow> (False, [])
                    | x # r' \<Rightarrow>
                        if x = CHR ''-'' then (True, r')
                        else if x = CHR ''+'' then (False, r')
                        else (False, r))
             in if ds = [] \<or> \<not> list_all is_digit ds then None
                else Some (if neg then - int (digits_val ds) else int (digits_val ds)))
          else None)"

text \<open>The optional fraction part: its digits and what follows them.\<close>

definition fraction_of :: "string \<Rightarrow> (string \<times> string) option" where
  "fraction_of s =
     (case s of
        [] \<Rightarrow> Some ([], [])
      | c # r \<Rightarrow>
          if c = CHR ''.'' then
            (if takeWhile is_digit r = [] then None
             else Some (takeWhile is_digit r, dropWhile is_digit r))
          else Some ([], s))"

definition number_of :: "string \<Rightarrow> jsnum option" where
  "number_of s =
     (let (neg, s1) =
            (case s of
               [] \<Rightarrow> (False, [])
             | c # r \<Rightarrow> if c = CHR ''-'' then (True, r) else (False, s));
          ds = takeWhile is_digit s1
      in if ds = [] \<or> (1 < length ds \<and> hd ds = CHR ''0'') then None
         else
           (case fraction_of (dropWhile is_digit s1) of
              None \<Rightarrow> None
            | Some (fs, s2) \<Rightarrow>
                (case exponent_of s2 of
                   None \<Rightarrow> None
                 | Some e \<Rightarrow>
                     Some (Dec (if neg then - int (digits_val (ds @ fs)) else int (digits_val (ds @ fs)))
                               (e - int (length fs))))))"

definition word_token :: "string \<Rightarrow> token option" where
  "word_token w =
     (if w = ''true'' then Some TTrue
      else if w = ''false'' then Some TFalse
      else if w = ''null'' then Some TNull
      else None)"

definition unescape :: "char \<Rightarrow> char option" where
  "unescape c =
     (if c = CHR 0x22 then Some (CHR 0x22)
      else if c = CHR 0x5C then Some (CHR 0x5C)
      else if c = CHR ''/'' then Some (CHR ''/'')
      else if c = CHR ''b'' then Some (CHR 0x08)
      else if c = CHR ''f'' then Some (CHR 0x0C)
      else if c = CHR ''n'' then Some (CHR 0x0A)
      else if c = CHR ''r'' then Some (CHR 0x0D)
      else if c = CHR ''t'' then Some (CHR 0x09)
      else None)"

text \<open>
  The scanner reads one character at a time: \<open>idle_step\<close> between tokens,
  \<open>lex_step\<close> in general. Each returns the next state and the tokens completed by the
  character, or nothing when the text is not JSON.
\<close>

definition idle_step :: "char \<Rightarrow> (lexstate \<times> token list) option" where
  "idle_step c =
     (if is_ws c then Some (Idle, [])
      else if c = CHR ''{'' then Some (Idle, [TLBrace])
      else if c = CHR ''}'' then Some (Idle, [TRBrace])
      else if c = CHR ''['' then Some (Idle, [TLBracket])
      else if c = CHR '']'' then Some (Idle, [TRBracket])
      else if c = CHR '':'' then Some (Idle, [TColon])
      else if c = CHR '','' then Some (Idle, [TComma])
      else if c = CHR 0x22 then Some (InString [], [])
      else if c = CHR ''-'' \<or> is_digit c then Some (InNumber [c], [])
      else if is_letter c then Some (InWord [c], [])
      else None)"

definition after_token :: "token option \<Rightarrow> char \<Rightarrow> (lexstate \<times> token list) option" where
  "after_token t c =
     (case t of
        None \<Rightarrow> None
      | Some tok \<Rightarrow>
          (case idle_step c of
             None \<Rightarrow> None
           | Some (st, out) \<Rightarrow> Some (st, tok # out)))"

definition lex_step :: "lexstate \<Rightarrow> char \<Rightarrow> (lexstate \<times> token list) option" where
  "lex_step st c =
     (case st of
        Idle \<Rightarrow> idle_step c
      | InString acc \<Rightarrow>
          if c = CHR 0x22 then Some (Idle, [TString (rev acc)])
          else if c = CHR 0x5C then Some (InEscape acc, [])
          else if c < CHR 0x20 then None
          else Some (InString (c # acc), [])
      | InEscape acc \<Rightarrow>
          (case unescape c of
             Some x \<Rightarrow> Some (InString (x # acc), [])
           | None \<Rightarrow> if c = CHR ''u'' then Some (InUnicode acc [], []) else None)
      | InUnicode acc hs \<Rightarrow>
          (case hex_val c of
             None \<Rightarrow> None
           | Some h \<Rightarrow>
               if length hs < 3 then Some (InUnicode acc (hs @ [h]), [])
               else
                 (let n = foldl (\<lambda>a v. 16 * a + v) 0 (hs @ [h])
                  in if n < 256 then Some (InString (char_of n # acc), []) else None))
      | InNumber acc \<Rightarrow>
          if is_number_char c then Some (InNumber (c # acc), [])
          else after_token (map_option TNumber (number_of (rev acc))) c
      | InWord acc \<Rightarrow>
          if is_letter c then Some (InWord (c # acc), [])
          else after_token (word_token (rev acc)) c)"

definition lex_finish :: "lexstate \<Rightarrow> token list option" where
  "lex_finish st =
     (case st of
        Idle \<Rightarrow> Some []
      | InNumber acc \<Rightarrow> map_option (\<lambda>x. [TNumber x]) (number_of (rev acc))
      | InWord acc \<Rightarrow> map_option (\<lambda>t. [t]) (word_token (rev acc))
      | _ \<Rightarrow> None)"

fun lex :: "lexstate \<Rightarrow> string \<Rightarrow> token list option" where
  "lex st [] = lex_finish st"
| "lex st (c # cs) =
     (case lex_step st c of
        None \<Rightarrow> None
      | Some (st', out) \<Rightarrow> map_option ((@) out) (lex st' cs))"

text \<open>
  An open array with its elements so far, or an open object with its properties so far and
  the key that waits for its value, both latest first; and what the grammar allows next.
\<close>

datatype frame =
    InArray "json list"
  | InObject "(string \<times> json) list" string

datatype expect = Value | ValueOrClose | KeyOrClose | Key | Colon | CommaOrClose | End json

fun deliver :: "json \<Rightarrow> frame list \<Rightarrow> frame list \<times> expect" where
  "deliver v [] = ([], End v)"
| "deliver v (InArray items # st) = (InArray (v # items) # st, CommaOrClose)"
| "deliver v (InObject props k # st) = (InObject ((k, v) # props) k # st, CommaOrClose)"

fun scalar :: "token \<Rightarrow> json option" where
  "scalar (TString s) = Some (JStr s)"
| "scalar (TNumber x) = Some (JNum x)"
| "scalar TTrue = Some (JBool True)"
| "scalar TFalse = Some (JBool False)"
| "scalar TNull = Some JNull"
| "scalar _ = None"

fun value_token :: "token \<Rightarrow> frame list \<Rightarrow> (frame list \<times> expect) option" where
  "value_token TLBrace st = Some (InObject [] [] # st, KeyOrClose)"
| "value_token TLBracket st = Some (InArray [] # st, ValueOrClose)"
| "value_token t st = map_option (\<lambda>v. deliver v st) (scalar t)"

fun key_token :: "token \<Rightarrow> frame list \<Rightarrow> (frame list \<times> expect) option" where
  "key_token (TString k) (InObject props _ # st) = Some (InObject props k # st, Colon)"
| "key_token _ _ = None"

fun close_array :: "frame list \<Rightarrow> (frame list \<times> expect) option" where
  "close_array (InArray items # st) = Some (deliver (JArr (rev items)) st)"
| "close_array _ = None"

fun close_object :: "frame list \<Rightarrow> (frame list \<times> expect) option" where
  "close_object (InObject props _ # st) = Some (deliver (JObj (rev props)) st)"
| "close_object _ = None"

fun after_value :: "token \<Rightarrow> frame list \<Rightarrow> (frame list \<times> expect) option" where
  "after_value TComma (InArray items # st) = Some (InArray items # st, Value)"
| "after_value TComma (InObject props k # st) = Some (InObject props k # st, Key)"
| "after_value TRBracket st = close_array st"
| "after_value TRBrace st = close_object st"
| "after_value _ _ = None"

fun parse_step :: "token \<Rightarrow> frame list \<times> expect \<Rightarrow> (frame list \<times> expect) option" where
  "parse_step t (st, Value) = value_token t st"
| "parse_step t (st, ValueOrClose) = (if t = TRBracket then close_array st else value_token t st)"
| "parse_step t (st, KeyOrClose) = (if t = TRBrace then close_object st else key_token t st)"
| "parse_step t (st, Key) = key_token t st"
| "parse_step t (st, Colon) = (if t = TColon then Some (st, Value) else None)"
| "parse_step t (st, CommaOrClose) = after_value t st"
| "parse_step t (st, End v) = None"

fun parse_tokens :: "token list \<Rightarrow> frame list \<times> expect \<Rightarrow> json option" where
  "parse_tokens [] (st, e) = (case e of End v \<Rightarrow> (if st = [] then Some v else None) | _ \<Rightarrow> None)"
| "parse_tokens (t # ts) s =
     (case parse_step t s of None \<Rightarrow> None | Some s' \<Rightarrow> parse_tokens ts s')"

definition JSON_parse :: "string \<Rightarrow> json option" where
  "JSON_parse s = (case lex Idle s of None \<Rightarrow> None | Some ts \<Rightarrow> parse_tokens ts ([], Value))"


section \<open>lib/storage.ts\<close>

subsection \<open>exportHikeToJson\<close>

text \<open>
  The hike handed to \<open>exportHikeToJson\<close> was read from the store, so an empty optional
  column is \<open>null\<close> and \<open>JSON.stringify\<close> prints the property with the value \<open>null\<close>.
\<close>

definition opt_str :: "string option \<Rightarrow> json" where
  "opt_str v = (case v of None \<Rightarrow> JNull | Some s \<Rightarrow> JStr s)"

definition opt_num :: "jsnum option \<Rightarrow> json" where
  "opt_num v = (case v of None \<Rightarrow> JNull | Some x \<Rightarrow> JNum x)"

definition exportData :: "Hike \<Rightarrow> Observation list \<Rightarrow> json" where
  "exportData hike obs =
     JObj
       [(''name'', JStr (name hike)),
        (''location'', JStr (location hike)),
        (''date'', JStr (date hike)),
        (''parkingAvailable'', JBool (parkingAvailable hike)),
        (''lengthKm'', JNum (lengthKm hike)),
        (''difficulty'', JStr (difficulty hike)),
        (''description'', opt_str (description hike)),
        (''elevationGainM'', opt_num (elevationGainM hike)),
        (''rating'', opt_num (rating hike)),
        (''latitude'', opt_num (latitude hike)),
        (''longitude'', opt_num (longitude hike)),
        (''observations'',
           JArr (map (\<lambda>ob. JObj [(''observation'', JStr (observation ob)),
                                  (''timestamp'', JNum (timestamp ob)),
                                  (''comments'', opt_str (comments ob))]) obs))]"

definition readableText :: "Hike \<Rightarrow> Observation list \<Rightarrow> string" where
  "readableText hike obs =
     ''=== Hike Export ==='' @ [CHR 0x0A] @
     ''Name: '' @ name hike @ [CHR 0x0A] @
     ''Location: '' @ location hike @ [CHR 0x0A] @
     ''Date: '' @ date hike @ [CHR 0x0A] @
     ''Length: '' @ Number_toString (lengthKm hike) @ '' km'' @ [CHR 0x0A] @
     ''Difficulty: '' @ difficulty hike @ [CHR 0x0A] @
     ''Parking: '' @ (if parkingAvailable hike then ''Available'' else ''Unavailable'') @ [CHR 0x0A] @
     (case elevationGainM hike of
        None \<Rightarrow> []
      | Some x \<Rightarrow>
          if mantissa x = 0 then []
          else ''Elevation Gain: '' @ Number_toString x @ '' m'' @ [CHR 0x0A]) @
     (case rating hike of
        None \<Rightarrow> []
      | Some x \<Rightarrow>
          if mantissa x = 0 then []
          else ''Rating: '' @ Number_toString x @ ''/5'' @ [CHR 0x0A]) @
     (case description hike of
        None \<Rightarrow> []
      | Some s \<Rightarrow>
          if s = [] then []
          else ''Description: '' @ s @ [CHR 0x0A]) @
     [CHR 0x0A] @
     (if 0 < length obs
      then ''Observations: '' @ show_nat (length obs) @ [CHR 0x0A]
      else []) @
     [CHR 0x0A] @
     ''=== JSON Data (for import) ==='' @ [CHR 0x0A] @
     JSON_stringify (exportData hike obs)"

text \<open>
  \<open>getObservationsByHikeId(hike.id!)\<close>: without an id the statement compares
  \<open>hikeId\<close> with \<open>NULL\<close> and selects no row.
\<close>

definition exportHikeToJson :: "db \<Rightarrow> Hike \<Rightarrow> (exn + string) \<times> db" where
  "exportHikeToJson d hike =
     (case (case hike_id hike of
              Some i \<Rightarrow> getObservationsByHikeId d i
            | None \<Rightarrow>
                (case driver_call d of
                   (Some e, d') \<Rightarrow> (Inl e, d')
                 | (None, d') \<Rightarrow> (Inr [], d'))) of
        (Inl e, d') \<Rightarrow> (Inl e, d')
      | (Inr obs, d') \<Rightarrow> (Inr (readableText hike obs), d'))"

subsection \<open>parseImportJson\<close>

text \<open>
  \<open>jsonText.match(/\{[\s\S]*\}/)\<close>: the match starts at the first opening brace of
  the text and, the star being greedy, ends at the last closing brace after it. There is
  no match when no closing brace follows the first opening one.
\<close>

definition match_braces :: "string \<Rightarrow> string option" where
  "match_braces text =
     (let rest = dropWhile (\<lambda>c. c \<noteq> CHR ''{'') text
      in if CHR ''}'' \<in> set rest
         then Some (rev (dropWhile (\<lambda>c. c \<noteq> CHR ''}'') (rev rest)))
         else None)"

text \<open>
  Reading a property of a parsed value: \<open>None\<close> is \<open>undefined\<close>. In an object
  the last of several equal keys counts. None of the property names the module reads is
  defined on an array, a string, a number or a boolean.
\<close>

fun js_get :: "json \<Rightarrow> string \<Rightarrow> json option" where
  "js_get (JObj props) k = map_of (rev props) k"
| "js_get _ k = None"

fun truthy :: "json option \<Rightarrow> bool" where
  "truthy None = False"
| "truthy (Some JNull) = False"
| "truthy (Some (JBool b)) = b"
| "truthy (Some (JNum x)) = (mantissa x \<noteq> 0)"
| "truthy (Some (JStr s)) = (s \<noteq> [])"
| "truthy (Some (JArr items)) = True"
| "truthy (Some (JObj props)) = True"

text \<open>
  The body of the \<open>try\<close> block after \<open>JSON.parse\<close>. Reading \<open>data.name\<close> of
  \<open>null\<close> throws a \<open>TypeError\<close> (its message is the engine's).
\<close>

definition validate :: "json \<Rightarrow> exn + json" where
  "validate data =
     (if data = JNull then Inl (TypeError ''Cannot read properties of null'')
      else if \<not> truthy (js_get data ''name'') \<or> \<not> truthy (js_get data ''location'') \<or>
              \<not> truthy (js_get data ''date'') \<or> js_get data ''parkingAvailable'' = None \<or>
              \<not> truthy (js_get data ''lengthKm'') \<or> \<not> truthy (js_get data ''difficulty'')
      then Inl (Error ''Missing required fields: name, location, date, parkingAvailable, lengthKm, or difficulty'')
      else Inr data)"

text \<open>The \<open>catch\<close> block of \<open>parseImportJson\<close>: what it throws for what it caught.\<close>

definition parse_catch :: "exn \<Rightarrow> exn" where
  "parse_catch e =
     (case e of
        SyntaxError m \<Rightarrow> Error ''Invalid JSON file format. Please select a valid hike export file.''
      | NonError \<Rightarrow> Error ''Invalid hike data format. Please check the file content.''
      | _ \<Rightarrow>
          if sublist ''required fields'' (message_or [] e) then e
          else Error ''Invalid hike data format. Please check the file content.'')"

text \<open>\<open>jsonMatch ? jsonMatch[0] : jsonText\<close>\<close>

definition jsonString :: "string \<Rightarrow> string" where
  "jsonString jsonText = (case match_braces jsonText of Some m \<Rightarrow> m | None \<Rightarrow> jsonText)"

text \<open>A text that \<open>JSON.parse\<close> rejects makes it throw a \<open>SyntaxError\<close> (its message is the engine's).\<close>

definition parseImportJson :: "string \<Rightarrow> exn + json" where
  "parseImportJson jsonText =
     (case JSON_parse (jsonString jsonText) of
        None \<Rightarrow> Inl (parse_catch (SyntaxError ''JSON Parse error''))
      | Some data \<Rightarrow>
          (case validate data of
             Inl e \<Rightarrow> Inl (parse_catch e)
           | Inr v \<Rightarrow> Inr v))"

subsection \<open>HikeExportFormat\<close>

















subsection \<open>importHikeFromJson\<close>

record ImportResult =
  success :: bool
  message :: string
  res_hikeId :: "nat option"






text \<open>The \<open>catch\<close> block of \<open>importHikeFromJson\<close>.\<close>

definition import_catch :: "exn \<Rightarrow> ImportResult" where
  "import_catch e =
     \<lparr>success = False, message = message_or ''Failed to import hike'' e, res_hikeId = None\<rparr>"



section \<open>The specification's notions\<close>

text \<open>
  The natural key of a hike: name, location, date, length, difficulty and parking, strings
  compared character by character and the length by its value.
\<close>

definition natural_key :: "Hike \<Rightarrow> string \<times> string \<times> string \<times> rat \<times> string \<times> bool" where
  "natural_key h =
     (name h, location h, date h, num_val (lengthKm h), difficulty h, parkingAvailable h)"

text \<open>
  An optional number that was supplied as zero, or a description supplied as the empty
  string, reads back as absent.
\<close>

text \<open>No row of \<open>hikes\<close> has a rowid beyond the \<open>AUTOINCREMENT\<close> counter.\<close>

definition rowids_issued :: "db \<Rightarrow> bool" where
  "rowids_issued d \<longleftrightarrow> list_all (\<lambda>row. r_id row \<le> hikes_seq d) (hikes d)"

definition zero_fields_absent :: "Hike \<Rightarrow> Hike \<Rightarrow> bool" where
  "zero_fields_absent supplied h \<longleftrightarrow>
     (\<forall>z. rating supplied = Some z \<and> num_val z = 0 \<longrightarrow> rating h = None) \<and>
     (\<forall>z. elevationGainM supplied = Some z \<and> num_val z = 0 \<longrightarrow> elevationGainM h = None) \<and>
     (\<forall>z. latitude supplied = Some z \<and> num_val z = 0 \<longrightarrow> latitude h = None) \<and>
     (\<forall>z. longitude supplied = Some z \<and> num_val z = 0 \<longrightarrow> longitude h = None) \<and>
     (description supplied = Some [] \<longrightarrow> description h = None)"




text \<open>A name contains a query text when the query is a substring of it, letter case aside.\<close>

definition contains_ci :: "string \<Rightarrow> string \<Rightarrow> bool" where
  "contains_ci text query \<longleftrightarrow> sublist (map ascii_lower query) (map ascii_lower text)"

text \<open>
  The conjunction of the supplied search criteria, read on a stored row. A criterion that is
  absent, or an empty string, asks for nothing.
\<close>

definition criteria_hold :: "SearchFilters \<Rightarrow> hikes_row \<Rightarrow> bool" where
  "criteria_hold c row \<longleftrightarrow>
     (case f_name c of None \<Rightarrow> True | Some n \<Rightarrow> contains_ci (r_name row) n) \<and>
     (case f_location c of None \<Rightarrow> True | Some l \<Rightarrow> contains_ci (r_location row) l) \<and>
     (case f_minLen c of None \<Rightarrow> True | Some m \<Rightarrow> num_val m \<le> num_val (r_lengthKm row)) \<and>
     (case f_maxLen c of None \<Rightarrow> True | Some m \<Rightarrow> num_val (r_lengthKm row) \<le> num_val m) \<and>
     (case f_date c of None \<Rightarrow> True | Some v \<Rightarrow> v = [] \<or> r_date row = v) \<and>
     (case f_difficulty c of None \<Rightarrow> True | Some v \<Rightarrow> v = [] \<or> r_difficulty row = v) \<and>
     (case f_parking c of None \<Rightarrow> True
      | Some p \<Rightarrow> r_parkingAvailable row = (if p then 1 else 0))"

definition no_wildcard :: "string option \<Rightarrow> bool" where
  "no_wildcard v = (case v of None \<Rightarrow> True | Some s \<Rightarrow> CHR ''%'' \<notin> set s \<and> CHR ''_'' \<notin> set s)"

section \<open>Sample data\<close>

text \<open>The hike and an observation of the specification's end-to-end scenario.\<close>

definition snowdon :: Hike where
  "snowdon =
     \<lparr>hike_id = None, name = ''Snowdon'', location = ''Llanberis, UK'', date = ''2025-07-10'',
      parkingAvailable = True, lengthKm = Dec 145 (- 1), difficulty = ''Hard'',
      description = None, elevationGainM = None, rating = None, photoUri = None,
      latitude = None, longitude = None, addedToCalendar = None\<rparr>"

definition summit_note :: Observation where
  "summit_note =
     \<lparr>obs_id = None, hikeId = 1, observation = ''Summit in cloud'',
      timestamp = Dec 1752105600000 0, comments = None, obs_photoUri = None\<rparr>"

text \<open>The same hike with every optional number zero and an empty description.\<close>

definition snowdon_zeros :: Hike where
  "snowdon_zeros =
     snowdon\<lparr>description := Some [], elevationGainM := Some (Dec 0 0), rating := Some (Dec 0 0),
             latitude := Some (Dec 0 0), longitude := Some (Dec 0 3)\<rparr>"

text \<open>A new database after \<open>insertHike(snowdon)\<close> and \<open>insertObservation(summit_note)\<close>.\<close>

definition snowdon_db :: db where
  "snowdon_db =
     snd (insertObservation (snd (insertHike openDatabase_fresh snowdon)) summit_note)"

text \<open>A hike with braces in its name, as \<open>getHikeById\<close> reads it after its insertion.\<close>

definition llanberis_path :: Hike where
  "llanberis_path =
     row_to_hike (hike_params 1 (snowdon\<lparr>name := ''Snowdon {Llanberis path}''\<rparr>))"





section \<open>Properties\<close>

subsection \<open>Auxiliary facts\<close>

lemma driver_call_tables:
  "driver_call d = (f, d') \<Longrightarrow>
     hikes d' = hikes d \<and> observations d' = observations d \<and> hikes_seq d' = hikes_seq d \<and>
     observations_seq d' = observations_seq d \<and> foreign_keys d' = foreign_keys d"
  by (auto simp: driver_call_def split: list.splits)

lemma num_val_zero_iff: "num_val x = 0 \<longleftrightarrow> mantissa x = 0"
  by (simp add: num_val_def)

lemma num_or_null_zero: "num_val z = 0 \<Longrightarrow> num_or_null (Some z) = None"
  by (simp add: num_or_null_def num_val_zero_iff)

lemma str_or_null_empty: "str_or_null (Some []) = None"
  by (simp add: str_or_null_def)

lemma find_in_set: "\<exists>x \<in> set xs. P x \<Longrightarrow> \<exists>y. find P xs = Some y \<and> P y"
  by (induction xs) auto

lemma find_snoc:
  "find P (xs @ [y]) =
     (case find P xs of None \<Rightarrow> (if P y then Some y else None) | Some x \<Rightarrow> Some x)"
  by (induction xs) auto

lemma find_map_first:
  "\<exists>x \<in> set xs. P x \<Longrightarrow> (\<And>x. P x \<Longrightarrow> P (g x) \<and> g x = v) \<Longrightarrow>
     find P (map (\<lambda>x. if P x then g x else x) xs) = Some v"
  by (induction xs) auto

lemma r_id_hike_params: "r_id (hike_params i h) = i"
  by (simp add: hike_params_def)

lemma replicate_numeral: "replicate (numeral k) x = x # replicate (pred_numeral k) x"
  by (simp add: numeral_eq_Suc)

lemmas db_eval =
  insertHike_def insertObservation_def deleteHike_def getObservationsByHikeId_def
  driver_call_def openDatabase_fresh_def sql_delete_hike_def hike_params_def
  str_or_null_def num_or_null_def order_by_def row_to_observation_def row_to_hike_def
  getHikeById_def searchHikes_def advancedSearchHikes_def getAllHikes_def updateHike_def
  updateObservation_def findDuplicateHike_def

lemmas json_print =
  Number_toString_def digit_char_def JSON_stringify_def quote_def quote_char_def
  exportData_def readableText_def opt_str_def opt_num_def replicate_numeral

lemmas json_read =
  JSON_parse_def lex_step_def idle_step_def after_token_def lex_finish_def is_ws_def is_digit_def
  is_letter_def is_number_char_def number_of_def fraction_of_def exponent_of_def digits_val_def
  word_token_def unescape_def match_braces_def jsonString_def parseImportJson_def validate_def
  parse_catch_def

lemma snowdon_db_eq:
  "snowdon_db =
     \<lparr>hikes = [hike_params 1 snowdon],
      observations =
        [\<lparr>o_id = 1, o_hikeId = 1, o_observation = ''Summit in cloud'',
          o_timestamp = Dec 1752105600000 0, o_comments = None, o_photoUri = None\<rparr>],
      hikes_seq = 1, observations_seq = 1, foreign_keys = False, faults = []\<rparr>"
  by (simp add: snowdon_db_def insertHike_def insertObservation_def driver_call_def
        openDatabase_fresh_def summit_note_def str_or_null_def)

subsection \<open>Deleting a hike\<close>

lemma deleteHike_cascades_when_enforced:
  assumes "foreign_keys d" and "deleteHike d i = (Inr (), d')"
    and "i \<in> set (map r_id (hikes d))"
  shows "filter (\<lambda>row. o_hikeId row = i) (observations d') = []"
proof -
  obtain f d1 where a: "driver_call d = (f, d1)" by (cases "driver_call d")
  note t = driver_call_tables [OF a]
  from assms a t have "observations d' = filter (\<lambda>row. o_hikeId row \<noteq> i) (observations d)"
    by (auto simp: deleteHike_def sql_delete_hike_def split: option.splits)
  then show ?thesis by (simp add: filter_empty_conv)
qed

lemma deleteHike_keeps_observations_when_not_enforced:
  assumes "\<not> foreign_keys d" and "deleteHike d i = (res, d')"
  shows "observations d' = observations d"
proof -
  obtain f d1 where a: "driver_call d = (f, d1)" by (cases "driver_call d")
  note t = driver_call_tables [OF a]
  from assms a t show ?thesis
    by (auto simp: deleteHike_def sql_delete_hike_def split: option.splits)
qed

lemma foreign_keys_never_enabled:
  "foreign_keys (snd (insertHike d h)) = foreign_keys d"
  "foreign_keys (snd (updateHike d h)) = foreign_keys d"
  "foreign_keys (snd (deleteHike d i)) = foreign_keys d"
  "foreign_keys (snd (deleteAllHikes d)) = foreign_keys d"
  "foreign_keys (snd (insertObservation d ob)) = foreign_keys d"
  "foreign_keys (snd (updateObservation d ob)) = foreign_keys d"
  "foreign_keys (snd (deleteObservation d i)) = foreign_keys d"
  by (auto simp: insertHike_def updateHike_def deleteHike_def deleteAllHikes_def
        insertObservation_def updateObservation_def deleteObservation_def driver_call_def
        sql_delete_hike_def sql_delete_all_hikes_def Let_def
      split: list.splits option.splits)

text \<open>
  C1. In the database the code opens, delete(h.id) removes the hike and leaves its
  observation in the store: getByHikeId(h.id) still returns it.
\<close>

theorem deleteHike_leaves_observations:
  "fst (deleteHike snowdon_db 1) = Inr () \<and>
   fst (getHikeById (snd (deleteHike snowdon_db 1)) 1) = Inr None \<and>
   fst (getObservationsByHikeId (snd (deleteHike snowdon_db 1)) 1) =
     Inr [summit_note\<lparr>obs_id := Some 1\<rparr>]"
  by (simp add: snowdon_db_eq db_eval summit_note_def)


subsection \<open>Row ids\<close>

lemma rowids_issued_fresh: "rowids_issued openDatabase_fresh"
  by (simp add: rowids_issued_def openDatabase_fresh_def)

lemma rowids_issued_insertHike: "rowids_issued d \<Longrightarrow> rowids_issued (snd (insertHike d h))"
  by (auto simp: rowids_issued_def insertHike_def driver_call_def hike_params_def Let_def
        list_all_iff split: list.splits option.splits)

lemma rowids_issued_updateHike: "rowids_issued d \<Longrightarrow> rowids_issued (snd (updateHike d h))"
  by (auto simp: rowids_issued_def updateHike_def driver_call_def hike_params_def
        list_all_iff split: list.splits option.splits)

lemma rowids_issued_deleteHike: "rowids_issued d \<Longrightarrow> rowids_issued (snd (deleteHike d i))"
  by (auto simp: rowids_issued_def deleteHike_def driver_call_def sql_delete_hike_def
        list_all_iff split: list.splits option.splits)

subsection \<open>Falsy optional fields\<close>

lemma insertHike_then_getHikeById:
  assumes ok: "rowids_issued d"
    and ins: "fst (insertHike d hike) = Inr i"
    and get: "fst (getHikeById (snd (insertHike d hike)) i) = Inr found"
  shows "found = Some (row_to_hike (hike_params i hike))"
proof -
  obtain f da where a: "driver_call d = (f, da)" by (cases "driver_call d")
  note ta = driver_call_tables [OF a]
  define d1 where "d1 = snd (insertHike d hike)"
  from ins a ta have i: "i = hikes_seq d + 1" and h1: "hikes d1 = hikes d @ [hike_params i hike]"
    by (auto simp: d1_def insertHike_def Let_def split: option.splits)
  obtain g db where b: "driver_call d1 = (g, db)" by (cases "driver_call d1")
  note tb = driver_call_tables [OF b]
  from ok i have "find (\<lambda>row. r_id row = i) (hikes d) = None"
    by (auto simp: find_None_iff rowids_issued_def list_all_iff)
  then have "find (\<lambda>row. r_id row = i) (hikes d1) = Some (hike_params i hike)"
    using h1 by (simp add: find_snoc hike_params_def)
  with get b tb show ?thesis
    by (auto simp: d1_def [symmetric] getHikeById_def split: option.splits)
qed

lemma updateHike_then_getHikeById:
  assumes upd: "fst (updateHike d hike) = Inr ()"
    and j: "hike_id hike = Some j" "j \<in> set (map r_id (hikes d))"
    and get: "fst (getHikeById (snd (updateHike d hike)) j) = Inr found"
  shows "found = Some (row_to_hike (hike_params j hike))"
proof -
  obtain f da where a: "driver_call d = (f, da)" by (cases "driver_call d")
  note ta = driver_call_tables [OF a]
  define d1 where "d1 = snd (updateHike d hike)"
  from upd j a ta
  have h1: "hikes d1 =
              map (\<lambda>row. if r_id row = j then hike_params j hike else row) (hikes d)"
    by (auto simp: d1_def updateHike_def split: option.splits if_splits)
  obtain g db where b: "driver_call d1 = (g, db)" by (cases "driver_call d1")
  note tb = driver_call_tables [OF b]
  from j have "\<exists>row \<in> set (hikes d). r_id row = j" by auto
  then have "find (\<lambda>row. r_id row = j) (hikes d1) = Some (hike_params j hike)"
    unfolding h1
    by (rule find_map_first [where g = "\<lambda>_. hike_params j hike"]) (simp add: hike_params_def)
  with get b tb show ?thesis
    by (auto simp: d1_def [symmetric] getHikeById_def split: option.splits)
qed

lemma zero_fields_absent_stored: "zero_fields_absent hike (row_to_hike (hike_params i hike))"
  by (auto simp: zero_fields_absent_def row_to_hike_def hike_params_def num_or_null_zero
        str_or_null_empty)

text \<open>
  C9. A hike whose rating, elevationGainM, latitude or longitude is 0, or whose description
  is the empty string, is read back by getById after insert with that field absent, and
  likewise after update has rewritten the row.
\<close>

theorem zero_and_empty_fields_read_back_absent:
  assumes "rowids_issued d"
  shows "(fst (insertHike d hike) = Inr i \<and>
          fst (getHikeById (snd (insertHike d hike)) i) = Inr found \<longrightarrow>
            (\<exists>h. found = Some h \<and> zero_fields_absent hike h)) \<and>
         (fst (updateHike d hike) = Inr () \<and> hike_id hike = Some j \<and>
          j \<in> set (map r_id (hikes d)) \<and>
          fst (getHikeById (snd (updateHike d hike)) j) = Inr found' \<longrightarrow>
            (\<exists>h. found' = Some h \<and> zero_fields_absent hike h))"
  using assms insertHike_then_getHikeById [of d hike i found]
    updateHike_then_getHikeById [of d hike j found']
  by (auto simp: zero_fields_absent_stored)

theorem zero_and_empty_fields_read_back_absent_witness:
  "rowids_issued snowdon_db \<and>
   fst (insertHike snowdon_db snowdon_zeros) = Inr 2 \<and>
   (\<exists>h. fst (getHikeById (snd (insertHike snowdon_db snowdon_zeros)) 2) = Inr (Some h) \<and>
        rating h = None \<and> elevationGainM h = None \<and> latitude h = None \<and>
        longitude h = None \<and> description h = None) \<and>
   fst (updateHike snowdon_db (snowdon_zeros\<lparr>hike_id := Some 1\<rparr>)) = Inr () \<and>
   (\<exists>h. fst (getHikeById (snd (updateHike snowdon_db (snowdon_zeros\<lparr>hike_id := Some 1\<rparr>))) 1) =
          Inr (Some h) \<and>
        rating h = None \<and> elevationGainM h = None \<and> latitude h = None \<and>
        longitude h = None \<and> description h = None)"
proof -
  have ok: "rowids_issued snowdon_db"
    by (simp add: rowids_issued_def snowdon_db_eq r_id_hike_params)
  have ins: "fst (insertHike snowdon_db snowdon_zeros) = Inr 2"
    by (simp add: snowdon_db_eq insertHike_def driver_call_def)
  have get: "fst (getHikeById (snd (insertHike snowdon_db snowdon_zeros)) 2) =
               Inr (Some (row_to_hike (hike_params 2 snowdon_zeros)))"
    by (simp add: snowdon_db_eq insertHike_def getHikeById_def driver_call_def r_id_hike_params
          numeral_2_eq_2 [symmetric])
  have upd: "fst (updateHike snowdon_db (snowdon_zeros\<lparr>hike_id := Some 1\<rparr>)) = Inr ()"
    by (simp add: snowdon_db_eq updateHike_def driver_call_def)
  have get': "fst (getHikeById (snd (updateHike snowdon_db (snowdon_zeros\<lparr>hike_id := Some 1\<rparr>))) 1) =
               Inr (Some (row_to_hike (hike_params 1 (snowdon_zeros\<lparr>hike_id := Some 1\<rparr>))))"
    by (simp add: snowdon_db_eq updateHike_def getHikeById_def driver_call_def r_id_hike_params)
  have mem: "(1::nat) \<in> set (map r_id (hikes snowdon_db))"
    by (simp add: snowdon_db_eq r_id_hike_params)
  have z: "num_val (Dec 0 0) = 0" "num_val (Dec 0 3) = 0"
    by (simp_all add: num_val_def)
  show ?thesis
    using zero_and_empty_fields_read_back_absent
      [OF ok, of snowdon_zeros 2 "Some (row_to_hike (hike_params 2 snowdon_zeros))"
         1 "Some (row_to_hike (hike_params 1 (snowdon_zeros\<lparr>hike_id := Some 1\<rparr>)))"]
      ok ins get upd get' mem z
    by (simp add: zero_fields_absent_def snowdon_zeros_def row_to_hike_def hike_params_def)
qed


subsection \<open>Updating an observation\<close>

lemma rewrite_keeps_ids:
  "map o_id (map (\<lambda>row. if o_id row = i
                         then row\<lparr>o_observation := a, o_timestamp := b, o_comments := c,
                                  o_photoUri := e\<rparr>
                         else row) (rows :: observations_row list)) = map o_id rows"
  by (induction rows) auto

lemma rewrite_keeps_hikeIds:
  "map o_hikeId (map (\<lambda>row. if o_id row = i
                             then row\<lparr>o_observation := a, o_timestamp := b, o_comments := c,
                                      o_photoUri := e\<rparr>
                             else row) (rows :: observations_row list)) = map o_hikeId rows"
  by (induction rows) auto

lemma rewrite_keeps_others:
  "filter (\<lambda>row. o_id row \<noteq> i)
     (map (\<lambda>row. if o_id row = i
                 then row\<lparr>o_observation := a, o_timestamp := b, o_comments := c,
                          o_photoUri := e\<rparr>
                 else row) (rows :: observations_row list)) =
   filter (\<lambda>row. o_id row \<noteq> i) rows"
  by (induction rows) auto

lemma rewrite_writes:
  "list_all (\<lambda>row. o_observation row = a \<and> o_timestamp row = b \<and> o_comments row = c \<and>
                   o_photoUri row = e)
     (filter (\<lambda>row. o_id row = i)
        (map (\<lambda>row. if o_id row = i
                    then row\<lparr>o_observation := a, o_timestamp := b, o_comments := c,
                             o_photoUri := e\<rparr>
                    else row) (rows :: observations_row list)))"
  by (induction rows) auto

text \<open>
  C10. updateObservation leaves the id and the hikeId of every stored observation as they
  were, whatever hikeId the supplied record carries; it leaves every row with another id and
  the table of hikes untouched, and when it succeeds the rows with the supplied id carry the
  supplied observation text and timestamp (and the comments and photoUri, an empty one stored
  as null).
\<close>

theorem updateObservation_keeps_id_and_hikeId:
  assumes "updateObservation d obs = (res, d')"
  shows "map o_id (observations d') = map o_id (observations d) \<and>
         map o_hikeId (observations d') = map o_hikeId (observations d) \<and>
         filter (\<lambda>row. Some (o_id row) \<noteq> obs_id obs) (observations d') =
           filter (\<lambda>row. Some (o_id row) \<noteq> obs_id obs) (observations d) \<and>
         hikes d' = hikes d \<and>
         (res = Inr () \<longrightarrow>
            list_all (\<lambda>row. o_observation row = observation obs \<and>
                            o_timestamp row = timestamp obs \<and>
                            o_comments row = str_or_null (comments obs) \<and>
                            o_photoUri row = str_or_null (obs_photoUri obs))
              (filter (\<lambda>row. Some (o_id row) = obs_id obs) (observations d')))"
proof -
  obtain f d1 where a: "driver_call d = (f, d1)" by (cases "driver_call d")
  note t = driver_call_tables [OF a]
  from assms a t
  have frame: "map o_id (observations d') = map o_id (observations d) \<and>
         map o_hikeId (observations d') = map o_hikeId (observations d) \<and>
         filter (\<lambda>row. Some (o_id row) \<noteq> obs_id obs) (observations d') =
           filter (\<lambda>row. Some (o_id row) \<noteq> obs_id obs) (observations d) \<and>
         hikes d' = hikes d"
    by (auto simp: updateObservation_def rewrite_keeps_ids rewrite_keeps_hikeIds
          rewrite_keeps_others
        split: option.splits if_splits)
  have written: "list_all (\<lambda>row. o_observation row = observation obs \<and>
                            o_timestamp row = timestamp obs \<and>
                            o_comments row = str_or_null (comments obs) \<and>
                            o_photoUri row = str_or_null (obs_photoUri obs))
              (filter (\<lambda>row. Some (o_id row) = obs_id obs) (observations d'))"
    if "res = Inr ()"
  proof -
    from that assms a t obtain i where i: "obs_id obs = Some i"
      and d': "observations d' = map (\<lambda>row. if o_id row = i
                                  then row\<lparr>o_observation := observation obs,
                                           o_timestamp := timestamp obs,
                                           o_comments := str_or_null (comments obs),
                                           o_photoUri := str_or_null (obs_photoUri obs)\<rparr>
                                  else row)
                           (observations d)"
      by (auto simp: updateObservation_def split: option.splits if_splits)
    show ?thesis
      unfolding d' i using rewrite_writes [of "observation obs" "timestamp obs"
        "str_or_null (comments obs)" "str_or_null (obs_photoUri obs)" i "observations d"]
      by simp
  qed
  from frame written show ?thesis by blast
qed

theorem updateObservation_keeps_id_and_hikeId_witness:
  "updateObservation snowdon_db
     (summit_note\<lparr>obs_id := Some 1, hikeId := 7, observation := ''Clear summit''\<rparr>) =
     (Inr (),
      snowdon_db\<lparr>observations :=
        [\<lparr>o_id = 1, o_hikeId = 1, o_observation = ''Clear summit'',
          o_timestamp = Dec 1752105600000 0, o_comments = None, o_photoUri = None\<rparr>]\<rparr>) \<and>
   map o_hikeId (observations (snd (updateObservation snowdon_db
     (summit_note\<lparr>obs_id := Some 1, hikeId := 7, observation := ''Clear summit''\<rparr>)))) =
     map o_hikeId (observations snowdon_db)"
proof -
  have run: "updateObservation snowdon_db
     (summit_note\<lparr>obs_id := Some 1, hikeId := 7, observation := ''Clear summit''\<rparr>) =
     (Inr (),
      snowdon_db\<lparr>observations :=
        [\<lparr>o_id = 1, o_hikeId = 1, o_observation = ''Clear summit'',
          o_timestamp = Dec 1752105600000 0, o_comments = None, o_photoUri = None\<rparr>]\<rparr>)"
    by (simp add: snowdon_db_eq updateObservation_def driver_call_def summit_note_def
          str_or_null_def)
  show ?thesis
    using updateObservation_keeps_id_and_hikeId [OF run] run
    by (simp add: snowdon_db_eq)
qed

subsection \<open>Duplicate detection\<close>

lemma natural_key_params: "natural_key (row_to_hike (hike_params i h)) = natural_key h"
  by (simp add: natural_key_def row_to_hike_def hike_params_def)

lemma duplicate_where_params:
  "duplicate_where h1 (hike_params i h2) \<longleftrightarrow> natural_key h2 = natural_key h1"
  by (auto simp: duplicate_where_def hike_params_def natural_key_def)

lemma duplicate_where_key:
  "duplicate_where h row \<Longrightarrow> natural_key (row_to_hike row) = natural_key h"
  by (auto simp: duplicate_where_def natural_key_def row_to_hike_def split: if_splits)

lemma findDuplicateHike_find:
  assumes "fst (findDuplicateHike d h) = Inr res"
  shows "res = map_option row_to_hike (find (duplicate_where h) (hikes d))"
proof -
  obtain f d1 where a: "driver_call d = (f, d1)" by (cases "driver_call d")
  note t = driver_call_tables [OF a]
  from assms a t show ?thesis
    by (auto simp: findDuplicateHike_def split: option.splits)
qed


text \<open>
  C3. When a hike h2 is stored and a candidate h1 agrees with it on the natural key (name,
  location, date, lengthKm, difficulty, parkingAvailable), findDuplicate reports a stored
  hike with that key, whatever the other fields of h1 and h2 are; when no stored hike has
  the natural key of h1, findDuplicate reports none.
\<close>

theorem findDuplicateHike_natural_key:
  assumes "fst (findDuplicateHike d h1) = Inr res"
  shows "(hike_params i h2 \<in> set (hikes d) \<and> natural_key h1 = natural_key h2 \<longrightarrow>
            (\<exists>dup. res = Some dup \<and> natural_key dup = natural_key h1)) \<and>
         (list_all (\<lambda>row. natural_key (row_to_hike row) \<noteq> natural_key h1) (hikes d) \<longrightarrow>
            res = None)"
proof (intro conjI impI)
  note res = findDuplicateHike_find [OF assms]
  {
    assume "hike_params i h2 \<in> set (hikes d) \<and> natural_key h1 = natural_key h2"
    then have "\<exists>row \<in> set (hikes d). duplicate_where h1 row"
      by (auto simp: duplicate_where_params intro!: bexI [of _ "hike_params i h2"])
    then obtain row where "find (duplicate_where h1) (hikes d) = Some row"
      and "duplicate_where h1 row"
      using find_in_set [of "hikes d" "duplicate_where h1"] by auto
    then show "\<exists>dup. res = Some dup \<and> natural_key dup = natural_key h1"
      using res duplicate_where_key by auto
  }
  {
    assume "list_all (\<lambda>row. natural_key (row_to_hike row) \<noteq> natural_key h1) (hikes d)"
    then have "\<forall>row \<in> set (hikes d). \<not> duplicate_where h1 row"
      using duplicate_where_key by (auto simp: list_all_iff)
    then have "find (duplicate_where h1) (hikes d) = None"
      by (simp add: find_None_iff)
    with res show "res = None" by simp
  }
qed

theorem findDuplicateHike_natural_key_witness:
  "fst (findDuplicateHike snowdon_db snowdon_zeros) =
     Inr (Some (row_to_hike (hike_params 1 snowdon))) \<and>
   natural_key snowdon_zeros = natural_key snowdon \<and>
   fst (findDuplicateHike snowdon_db (snowdon\<lparr>name := ''snowdon''\<rparr>)) = Inr None \<and>
   fst (findDuplicateHike snowdon_db (snowdon\<lparr>lengthKm := Dec 14 0\<rparr>)) = Inr None"
proof -
  have a: "fst (findDuplicateHike snowdon_db snowdon_zeros) =
             Inr (Some (row_to_hike (hike_params 1 snowdon)))"
    by (simp add: snowdon_db_eq findDuplicateHike_def driver_call_def duplicate_where_params
          natural_key_def snowdon_zeros_def)
  have b: "fst (findDuplicateHike snowdon_db (snowdon\<lparr>name := ''snowdon''\<rparr>)) = Inr None"
    by (simp add: snowdon_db_eq findDuplicateHike_def driver_call_def duplicate_where_params
          natural_key_def snowdon_def)
  have c: "fst (findDuplicateHike snowdon_db (snowdon\<lparr>lengthKm := Dec 14 0\<rparr>)) = Inr None"
    by (simp add: snowdon_db_eq findDuplicateHike_def driver_call_def duplicate_where_params
          natural_key_def snowdon_def num_val_def)
  have k: "natural_key snowdon_zeros = natural_key snowdon"
    by (simp add: natural_key_def snowdon_zeros_def)
  have m: "hike_params 1 snowdon \<in> set (hikes snowdon_db)"
    by (simp add: snowdon_db_eq)
  have n: "list_all (\<lambda>row. natural_key (row_to_hike row) \<noteq> natural_key (snowdon\<lparr>name := ''snowdon''\<rparr>))
             (hikes snowdon_db)"
    by (simp add: snowdon_db_eq natural_key_params) (simp add: natural_key_def snowdon_def)
  show ?thesis
    using findDuplicateHike_natural_key [OF a, of 1 snowdon]
      findDuplicateHike_natural_key [OF b, of 1 snowdon] a b c k m n
    by simp
qed

subsection \<open>Searching\<close>

lemma sql_like_percent: "sql_like ''%'' t"
  by (induction t) auto

lemma sql_like_plain:
  "CHR ''%'' \<notin> set q \<Longrightarrow> CHR ''_'' \<notin> set q \<Longrightarrow>
     sql_like q t \<longleftrightarrow> map ascii_lower q = map ascii_lower t"
proof (induction q arbitrary: t)
  case Nil
  then show ?case by auto
next
  case (Cons p ps)
  then show ?case by (cases t) auto
qed

lemma sql_like_plain_then_percent:
  "CHR ''%'' \<notin> set q \<Longrightarrow> CHR ''_'' \<notin> set q \<Longrightarrow>
     sql_like (q @ ''%'') t \<longleftrightarrow> prefix (map ascii_lower q) (map ascii_lower t)"
proof (induction q arbitrary: t)
  case Nil
  then show ?case by (simp add: sql_like_percent)
next
  case (Cons p ps)
  then show ?case by (cases t) auto
qed

lemma sql_like_percent_first:
  "sql_like (CHR ''%'' # p) t \<longleftrightarrow> (\<exists>s. suffix s t \<and> sql_like p s)"
proof (induction t)
  case Nil
  then show ?case by auto
next
  case (Cons c cs)
  then show ?case by (auto simp: suffix_Cons)
qed

lemma suffix_map_iff:
  "(\<exists>s. suffix s t \<and> prefix xs (map f s)) \<longleftrightarrow> (\<exists>ys. suffix ys (map f t) \<and> prefix xs ys)"
proof
  assume "\<exists>s. suffix s t \<and> prefix xs (map f s)"
  then obtain s zs where "t = zs @ s" "prefix xs (map f s)" by (auto simp: suffix_def)
  then have "suffix (map f s) (map f t)" by (simp add: suffix_def)
  with \<open>prefix xs (map f s)\<close> show "\<exists>ys. suffix ys (map f t) \<and> prefix xs ys" by blast
next
  assume "\<exists>ys. suffix ys (map f t) \<and> prefix xs ys"
  then obtain ys zs where "map f t = zs @ ys" "prefix xs ys" by (auto simp: suffix_def)
  then obtain t1 t2 where "t = t1 @ t2" "map f t2 = ys"
    by (auto simp: map_eq_append_conv)
  with \<open>prefix xs ys\<close> show "\<exists>s. suffix s t \<and> prefix xs (map f s)"
    by (auto simp: suffix_def)
qed

lemma sql_like_contains:
  assumes "CHR ''%'' \<notin> set q" and "CHR ''_'' \<notin> set q"
  shows "sql_like (CHR ''%'' # q @ ''%'') t \<longleftrightarrow> contains_ci t q"
proof -
  have "sql_like (CHR ''%'' # q @ ''%'') t \<longleftrightarrow> (\<exists>s. suffix s t \<and> sql_like (q @ ''%'') s)"
    by (rule sql_like_percent_first)
  also have "\<dots> \<longleftrightarrow> (\<exists>s. suffix s t \<and> prefix (map ascii_lower q) (map ascii_lower s))"
    using assms by (simp add: sql_like_plain_then_percent)
  also have "\<dots> \<longleftrightarrow> sublist (map ascii_lower q) (map ascii_lower t)"
    by (simp add: suffix_map_iff sublist_altdef')
  finally show ?thesis by (simp add: contains_ci_def)
qed

lemma place_mset: "mset (place le x ys) = add_mset x (mset ys)"
  by (induction ys) auto

lemma order_by_mset: "mset (order_by le xs) = mset xs"
  by (induction xs) (auto simp: order_by_def place_mset)

lemma place_set: "set (place le x ys) = insert x (set ys)"
  by (induction ys) auto

lemma place_sorted:
  assumes total: "\<And>a b. le a b \<or> le b a" and trans: "\<And>a b c. le a b \<Longrightarrow> le b c \<Longrightarrow> le a c"
  shows "sorted_wrt le ys \<Longrightarrow> sorted_wrt le (place le x ys)"
proof (induction ys)
  case Nil
  then show ?case by simp
next
  case (Cons y ys)
  show ?case
  proof (cases "le x y")
    case True
    with Cons.prems trans show ?thesis by auto
  next
    case False
    with total have "le y x" by blast
    with Cons False show ?thesis by (auto simp: place_set)
  qed
qed

lemma order_by_sorted:
  assumes "\<And>a b. le a b \<or> le b a" and "\<And>a b c. le a b \<Longrightarrow> le b c \<Longrightarrow> le a c"
  shows "sorted_wrt le (order_by le xs)"
proof (induction xs)
  case Nil
  then show ?case by (simp add: order_by_def)
next
  case (Cons x xs)
  have "order_by le (x # xs) = place le x (order_by le xs)" by (simp add: order_by_def)
  with Cons place_sorted [OF assms] show ?case by simp
qed

lemma sorted_name_asc: "sorted_wrt name_asc (order_by name_asc rows)"
  by (rule order_by_sorted) (auto simp: name_asc_def)

lemma sorted_date_desc_name_asc:
  "sorted_wrt date_desc_name_asc (order_by date_desc_name_asc rows)"
  by (rule order_by_sorted) (auto simp: date_desc_name_asc_def)

lemma name_asc_eq: "name_asc = (\<lambda>a b. r_name a \<le> r_name b)"
  by (simp add: name_asc_def fun_eq_iff)

lemma date_desc_name_asc_eq:
  "date_desc_name_asc =
     (\<lambda>a b. r_date b < r_date a \<or> (r_date a = r_date b \<and> r_name a \<le> r_name b))"
  by (simp add: date_desc_name_asc_def fun_eq_iff)

lemma sorted_timestamp_desc: "sorted_wrt timestamp_desc (order_by timestamp_desc rows)"
  by (rule order_by_sorted) (auto simp: timestamp_desc_def)


lemma contains_ci_empty: "contains_ci t []"
  by (simp add: contains_ci_def)

lemma like_clause_contains:
  "no_wildcard v \<Longrightarrow>
     like_clause v column = (case v of None \<Rightarrow> True | Some s \<Rightarrow> contains_ci column s)"
  by (auto simp: like_clause_def no_wildcard_def sql_like_contains contains_ci_empty
      split: option.splits)

lemma advanced_where_criteria:
  "no_wildcard (f_name c) \<Longrightarrow> no_wildcard (f_location c) \<Longrightarrow>
     advanced_where c row = criteria_hold c row"
  by (auto simp: advanced_where_def criteria_hold_def like_clause_contains equals_clause_def
      split: option.splits)

lemma name_row_to_hike: "name (row_to_hike row) = r_name row"
  and date_row_to_hike: "date (row_to_hike row) = r_date row"
  by (simp_all add: row_to_hike_def)

lemma searchHikes_without_wildcards:
  assumes "CHR ''%'' \<notin> set query" and "CHR ''_'' \<notin> set query"
    and "fst (searchHikes d query) = Inr hs"
  shows "mset hs =
           mset (map row_to_hike (filter (\<lambda>row. contains_ci (r_name row) query) (hikes d))) \<and>
         sorted_wrt (\<lambda>a b. name a \<le> name b) hs"
proof -
  obtain f d1 where a: "driver_call d = (f, d1)" by (cases "driver_call d")
  note t = driver_call_tables [OF a]
  from assms(3) a t
  have hs: "hs = map row_to_hike (order_by name_asc
              (filter (\<lambda>row. sql_like (''%'' @ query @ ''%'') (r_name row)) (hikes d)))"
    by (auto simp: searchHikes_def split: option.splits)
  have like: "(\<lambda>row. sql_like (''%'' @ query @ ''%'') (r_name row)) =
              (\<lambda>row. contains_ci (r_name row) query)"
    using sql_like_contains [OF assms(1,2)] by auto
  have "sorted_wrt (\<lambda>a b. name a \<le> name b) hs"
    unfolding hs using sorted_name_asc [of "filter (\<lambda>row. sql_like (''%'' @ query @ ''%'') (r_name row)) (hikes d)"]
    by (simp add: sorted_wrt_map name_row_to_hike name_asc_eq)
  moreover have "mset hs =
      mset (map row_to_hike (filter (\<lambda>row. contains_ci (r_name row) query) (hikes d)))"
    unfolding hs like by (simp add: order_by_mset)
  ultimately show ?thesis by blast
qed

lemma advancedSearchHikes_without_wildcards:
  assumes "no_wildcard (f_name c)" and "no_wildcard (f_location c)"
    and "fst (advancedSearchHikes d c) = Inr hs"
  shows "mset hs = mset (map row_to_hike (filter (criteria_hold c) (hikes d))) \<and>
         sorted_wrt (\<lambda>a b. date b < date a \<or> (date a = date b \<and> name a \<le> name b)) hs"
proof -
  obtain f d1 where a: "driver_call d = (f, d1)" by (cases "driver_call d")
  note t = driver_call_tables [OF a]
  from assms(3) a t
  have hs: "hs = map row_to_hike (order_by date_desc_name_asc
              (filter (advanced_where c) (hikes d)))"
    by (auto simp: advancedSearchHikes_def split: option.splits)
  have w: "advanced_where c = criteria_hold c"
    using advanced_where_criteria [OF assms(1,2)] by auto
  have "sorted_wrt (\<lambda>a b. date b < date a \<or> (date a = date b \<and> name a \<le> name b)) hs"
    unfolding hs using sorted_date_desc_name_asc [of "filter (advanced_where c) (hikes d)"]
    by (simp add: sorted_wrt_map name_row_to_hike date_row_to_hike date_desc_name_asc_eq)
  moreover have "mset hs = mset (map row_to_hike (filter (criteria_hold c) (hikes d)))"
    unfolding hs w by (simp add: order_by_mset)
  ultimately show ?thesis by blast
qed

lemma advancedSearchHikes_no_criteria:
  "advancedSearchHikes d
     \<lparr>f_name = None, f_location = None, f_minLen = None, f_maxLen = None, f_date = None,
      f_difficulty = None, f_parking = None\<rparr> = getAllHikes d"
  by (simp add: advancedSearchHikes_def getAllHikes_def advanced_where_def like_clause_def
        equals_clause_def split: prod.splits option.splits)

lemma getAllHikes_ordered:
  assumes "fst (getAllHikes d) = Inr hs"
  shows "mset hs = mset (map row_to_hike (hikes d)) \<and>
         sorted_wrt (\<lambda>a b. date b < date a \<or> (date a = date b \<and> name a \<le> name b)) hs"
proof -
  obtain f d1 where a: "driver_call d = (f, d1)" by (cases "driver_call d")
  note t = driver_call_tables [OF a]
  from assms a t
  have hs: "hs = map row_to_hike (order_by date_desc_name_asc (hikes d))"
    by (auto simp: getAllHikes_def split: option.splits)
  show ?thesis
    unfolding hs using sorted_date_desc_name_asc [of "hikes d"]
    by (simp add: sorted_wrt_map name_row_to_hike date_row_to_hike date_desc_name_asc_eq
          order_by_mset)
qed

text \<open>
  C8. The query S_o is not a substring of the name Snowdon, in any letter case, and
  search(S_o) returns the hike named Snowdon: the underscore of the query is taken as the
  one-character wildcard of LIKE.
\<close>

theorem searchHikes_takes_query_as_pattern:
  "fst (searchHikes snowdon_db ''S_o'') = Inr [row_to_hike (hike_params 1 snowdon)] \<and>
   name (row_to_hike (hike_params 1 snowdon)) = ''Snowdon'' \<and>
   \<not> contains_ci ''Snowdon'' ''S_o''"
  by (simp add: snowdon_db_eq searchHikes_def driver_call_def order_by_def hike_params_def
        row_to_hike_def snowdon_def ascii_lower_def contains_ci_def sublist_code(3))

text \<open>
  C6. With the name criterion S%n and the minimum length 5, advancedSearch returns the hike
  named Snowdon, whose name does not contain S%n in any letter case: the percent sign of the
  criterion is taken as the wildcard of LIKE.
\<close>

theorem advancedSearchHikes_takes_criterion_as_pattern:
  "fst (advancedSearchHikes snowdon_db
          \<lparr>f_name = Some ''S%n'', f_location = None, f_minLen = Some (Dec 5 0),
           f_maxLen = None, f_date = None, f_difficulty = Some ''Hard'',
           f_parking = None\<rparr>) = Inr [row_to_hike (hike_params 1 snowdon)] \<and>
   name (row_to_hike (hike_params 1 snowdon)) = ''Snowdon'' \<and>
   \<not> contains_ci ''Snowdon'' ''S%n''"
  by (simp add: snowdon_db_eq advancedSearchHikes_def driver_call_def order_by_def
        hike_params_def row_to_hike_def snowdon_def ascii_lower_def contains_ci_def
        sublist_code(3) advanced_where_def like_clause_def equals_clause_def num_val_def)

subsection \<open>Export and decode\<close>


lemma llanberis_path_export:
  "fst (exportHikeToJson (snd (insertHike openDatabase_fresh (snowdon\<lparr>name := ''Snowdon {Llanberis path}''\<rparr>)))
         llanberis_path) = Inr (readableText llanberis_path [])"
  by (simp add: exportHikeToJson_def llanberis_path_def row_to_hike_def insertHike_def
        driver_call_def openDatabase_fresh_def getObservationsByHikeId_def order_by_def)

text \<open>
  C2. The hike named Snowdon {Llanberis path} is stored, read back and exported; decode of
  the exported text fails, because the text handed to the JSON parser starts at the brace of
  the Name line.
\<close>

theorem decode_of_encode_fails_on_braces:
  "fst (getHikeById (snd (insertHike openDatabase_fresh
          (snowdon\<lparr>name := ''Snowdon {Llanberis path}''\<rparr>))) 1) = Inr (Some llanberis_path) \<and>
   fst (exportHikeToJson (snd (insertHike openDatabase_fresh
          (snowdon\<lparr>name := ''Snowdon {Llanberis path}''\<rparr>))) llanberis_path) =
     Inr (readableText llanberis_path []) \<and>
   take 16 (jsonString (readableText llanberis_path [])) = ''{Llanberis path}'' \<and>
   parseImportJson (readableText llanberis_path []) =
     Inl (Error ''Invalid JSON file format. Please select a valid hike export file.'')"
  by (simp add: insertHike_def getHikeById_def driver_call_def openDatabase_fresh_def
        exportHikeToJson_def getObservationsByHikeId_def order_by_def
        llanberis_path_def snowdon_def row_to_hike_def hike_params_def json_print
        str_or_null_def num_or_null_def json_read)

lemma decode_of_encode_snowdon:
  "parseImportJson (readableText (row_to_hike (hike_params 1 snowdon)) [summit_note\<lparr>obs_id := Some 1\<rparr>]) =
     Inr (exportData (row_to_hike (hike_params 1 snowdon)) [summit_note\<lparr>obs_id := Some 1\<rparr>])"
  by (simp add: snowdon_def summit_note_def row_to_hike_def hike_params_def json_print
        str_or_null_def num_or_null_def json_read)







subsection \<open>Import\<close>



lemma import_catch_fields:
  "success (import_catch e) = False \<and>
   message (import_catch e) = message_or ''Failed to import hike'' e \<and>
   res_hikeId (import_catch e) = None"
  by (simp add: import_catch_def)










end
